theory Spec2Isabelle
  imports Main "HOL-Library.Sublist"
begin

section \<open>Run-time errors\<close>

text \<open>
  The one exception the modelled code can raise: a \<^verbatim>\<open>TypeError\<close>, for a method
  called on a value that does not have it or a spread of a value that is not
  iterable.
\<close>

datatype js_error = TypeError


section \<open>The access gate (src/proxy.ts)\<close>

text \<open>
  The middleware is \<^verbatim>\<open>withAuth(proxy, {callbacks: {authorized}, pages: {signIn}})\<close>.
  \<^verbatim>\<open>withAuth\<close> verifies the credential carried by the request and hands the
  \<^verbatim>\<open>authorized\<close> callback the decoded token, or \<^verbatim>\<open>null\<close> when the request
  carries no credential or one that does not verify. The three credential states of
  the specification and that hand-over are \<open>credential\<close> and \<open>getToken\<close>; the
  token's payload is of no interest to the callback, which only tests it for
  truthiness (an object is always truthy), so it stays a type parameter.
\<close>

datatype 't credential = PresentValid 't | Absent | PresentInvalid

definition getToken :: "'t credential \<Rightarrow> 't option" where
  "getToken c = (case c of PresentValid t \<Rightarrow> Some t | Absent \<Rightarrow> None | PresentInvalid \<Rightarrow> None)"

text \<open>
  \<^verbatim>\<open>const publicRoutes = ["/login", "/api/auth"];\<close>
  \<^verbatim>\<open>const isPublicRoute = publicRoutes.some((route) => req.nextUrl.pathname.startsWith(route));\<close>
  \<^verbatim>\<open>String.prototype.startsWith\<close> is \<open>prefix\<close> on character lists.
\<close>

definition publicRoutes :: "string list" where
  "publicRoutes = [''/login'', ''/api/auth'']"

definition isPublicRoute :: "string \<Rightarrow> bool" where
  "isPublicRoute pathname = list_ex (\<lambda>route. prefix route pathname) publicRoutes"

text \<open>
  \<^verbatim>\<open>authorized: ({ token, req }) => { if (token) return true; ...; if (isPublicRoute) return true; return false; }\<close>
\<close>

definition authorized :: "'t option \<Rightarrow> string \<Rightarrow> bool" where
  "authorized token pathname =
     (if token \<noteq> None then True
      else if isPublicRoute pathname then True
      else False)"

text \<open>\<^verbatim>\<open>pages: { signIn: "/login" }\<close>: where a denied request is sent.\<close>

definition pages_signIn :: string where
  "pages_signIn = ''/login''"

text \<open>
  \<^verbatim>\<open>config.matcher\<close>, third pattern:
  \<^verbatim>\<open>"/((?!login|api/auth|_next/static|_next/image|favicon.ico).*)"\<close>.
  The negative lookahead stands right after the leading slash; it fails, and with it
  the pattern, when the text after the slash begins with one of the alternatives. In
  \<^verbatim>\<open>favicon.ico\<close> the dot is the regular expression's wildcard: any character but
  a line terminator. An alternative is a list of \<open>Some c\<close> (the character \<open>c\<close>) and
  \<open>None\<close> (the wildcard).
\<close>

fun lookahead_matches :: "char option list \<Rightarrow> string \<Rightarrow> bool" where
  "lookahead_matches [] s = True"
| "lookahead_matches (p # ps) [] = False"
| "lookahead_matches (p # ps) (c # cs) =
     ((case p of
         Some d \<Rightarrow> c = d
       | None \<Rightarrow> c \<noteq> CHR 0x0A \<and> c \<noteq> CHR 0x0D) \<and> lookahead_matches ps cs)"

definition literal :: "string \<Rightarrow> char option list" where
  "literal s = map Some s"

definition matcher_exclusions :: "char option list list" where
  "matcher_exclusions =
     [literal ''login'', literal ''api/auth'', literal ''_next/static'',
      literal ''_next/image'', literal ''favicon'' @ [None] @ literal ''ico'']"

definition matcher_excluded :: "string \<Rightarrow> bool" where
  "matcher_excluded pathname =
     (case pathname of
        [] \<Rightarrow> False
      | c # rest \<Rightarrow> c = CHR ''/'' \<and> list_ex (\<lambda>alt. lookahead_matches alt rest) matcher_exclusions)"






text \<open>
  The callback once more, over run-time values. TypeScript's types are erased when
  the code runs: \<^verbatim>\<open>token\<close> and \<^verbatim>\<open>req.nextUrl.pathname\<close> are JavaScript values,
  \<^verbatim>\<open>if (token)\<close> is truthiness, and \<^verbatim>\<open>pathname.startsWith(route)\<close> raises a
  \<^verbatim>\<open>TypeError\<close> on a value that is not a string. \<^verbatim>\<open>Array.prototype.some\<close> calls
  its callback on the elements in order, stops at the first true, and lets an
  exception of the callback through. \<open>authorized_rt\<close> follows the source statement by
  statement; \<open>authorized\<close> above is the same code with the declared types
  (\<^verbatim>\<open>JWT | null\<close> and \<^verbatim>\<open>string\<close>) built into its arguments.
\<close>

datatype 't js_value = JsUndefined | JsNull | JsString string | JsObject 't

definition truthy :: "'t js_value \<Rightarrow> bool" where
  "truthy v =
     (case v of
        JsUndefined \<Rightarrow> False
      | JsNull \<Rightarrow> False
      | JsString s \<Rightarrow> s \<noteq> []
      | JsObject t \<Rightarrow> True)"

definition startsWith_rt :: "'t js_value \<Rightarrow> string \<Rightarrow> js_error + bool" where
  "startsWith_rt v route =
     (case v of
        JsString s \<Rightarrow> Inr (prefix route s)
      | JsUndefined \<Rightarrow> Inl TypeError
      | JsNull \<Rightarrow> Inl TypeError
      | JsObject t \<Rightarrow> Inl TypeError)"

fun some_rt :: "('a \<Rightarrow> js_error + bool) \<Rightarrow> 'a list \<Rightarrow> js_error + bool" where
  "some_rt f [] = Inr False"
| "some_rt f (x # xs) =
     (case f x of
        Inl err \<Rightarrow> Inl err
      | Inr b \<Rightarrow> if b then Inr True else some_rt f xs)"

definition authorized_rt :: "'t js_value \<Rightarrow> 'u js_value \<Rightarrow> js_error + bool" where
  "authorized_rt token pathname =
     (if truthy token then Inr True
      else case some_rt (\<lambda>route. startsWith_rt pathname route) publicRoutes of
             Inl err \<Rightarrow> Inl err
           | Inr b \<Rightarrow> if b then Inr True else Inr False)"


text \<open>
  The allow-list as the specification words it (section 4.1 and its edge-case policy),
  kept apart from the code's \<open>isPublicRoute\<close> to compare the two: the login page and
  the authentication-protocol namespace, with overlaps resolved by exact-segment
  matching. A path is on the list when it is \<^verbatim>\<open>/login\<close> or \<^verbatim>\<open>/api/auth\<close> itself
  or lies below one of them, the route being followed by the segment separator.
\<close>

definition spec_public_path :: "string \<Rightarrow> bool" where
  "spec_public_path pathname =
     list_ex (\<lambda>route. pathname = route \<or> prefix (route @ ''/'') pathname) publicRoutes"


section \<open>The data access facade (src/lib/axios/interceptors.ts)\<close>

text \<open>
  The interceptors read and write the browser: \<^verbatim>\<open>localStorage\<close> (keys and values
  are strings, \<^verbatim>\<open>getItem\<close> answers \<^verbatim>\<open>null\<close> for a missing key) and
  \<^verbatim>\<open>window.location.href\<close> (assigning it navigates). On the server there is no
  \<^verbatim>\<open>window\<close>: \<^verbatim>\<open>typeof window !== "undefined"\<close> is \<open>window e \<noteq> None\<close>.
  \<open>console\<close> collects the lines written with \<^verbatim>\<open>console.error\<close>.
  \<open>requests_sent\<close> is a ghost counter of the requests handed to the transport; the
  code does not read it.
\<close>

record browser =
  localStorage :: "string \<rightharpoonup> string"
  location_href :: string

record env =
  window :: "browser option"
  console :: "string list"
  requests_sent :: nat

record request_config =
  url :: string
  method' :: string
  headers :: "string \<rightharpoonup> string"

record axios_response =
  status :: int

record axios_error =
  message :: string
  response :: "axios_response option"

text \<open>\<^verbatim>\<open>error.response?.status\<close>: undefined when the error carries no response.\<close>

definition response_status :: "'a axios_error_scheme \<Rightarrow> int option" where
  "response_status error = map_option status (response error)"

text \<open>
  \<^verbatim>\<open>const token = typeof window !== "undefined" ? localStorage.getItem("authToken") : null;\<close>
\<close>

definition getAuthToken :: "env \<Rightarrow> string option" where
  "getAuthToken e =
     (case window e of
        Some w \<Rightarrow> localStorage w ''authToken''
      | None \<Rightarrow> None)"

text \<open>
  The request interceptor. \<^verbatim>\<open>if (token)\<close> is JavaScript truthiness: \<^verbatim>\<open>null\<close> and
  the empty string are falsy, every other string is truthy.
  \<^verbatim>\<open>config.headers.Authorization = `Bearer ${token}`;\<close>
  \<^verbatim>\<open>config.headers["Content-Type"] = "application/json";\<close>
\<close>

definition onRequest :: "env \<Rightarrow> 'a request_config_scheme \<Rightarrow> 'a request_config_scheme" where
  "onRequest e config =
     (let token = getAuthToken e;
          config1 =
            (case token of
               None \<Rightarrow> config
             | Some t \<Rightarrow>
                 if t = [] then config
                 else config\<lparr>headers := (headers config)(''Authorization'' \<mapsto> ''Bearer '' @ t)\<rparr>)
      in config1\<lparr>headers := (headers config1)(''Content-Type'' \<mapsto> ''application/json'')\<rparr>)"

text \<open>
  The response interceptor. A settled promise is a sum: \<open>Inr\<close> the value it resolves
  to, \<open>Inl\<close> the error it rejects with. The success handler returns the response; the
  error handler runs its three independent status tests in order and always ends in
  \<^verbatim>\<open>return Promise.reject(error)\<close>.
\<close>

definition onFulfilled ::
  "env \<Rightarrow> 'r axios_response_scheme \<Rightarrow> env \<times> ('x axios_error_scheme + 'r axios_response_scheme)" where
  "onFulfilled e resp = (e, Inr resp)"

definition onRejected ::
  "env \<Rightarrow> 'x axios_error_scheme \<Rightarrow> env \<times> ('x axios_error_scheme + 'r axios_response_scheme)" where
  "onRejected e error =
     (let e1 =
            (if response_status error = Some 401 then
               (case window e of
                  None \<Rightarrow> e
                | Some w \<Rightarrow>
                    e\<lparr>window := Some (w\<lparr>localStorage := (localStorage w)(''authToken'' := None),
                                            location_href := ''/login''\<rparr>)\<rparr>)
             else e);
          e2 =
            (if response_status error = Some 403
             then e1\<lparr>console := console e1 @ [''Access forbidden'']\<rparr>
             else e1);
          e3 =
            (if response_status error = Some 429
             then e2\<lparr>console := console e2 @ [''Rate limit exceeded'']\<rparr>
             else e2)
      in (e3, Inl error))"

text \<open>
  One request (\<^verbatim>\<open>axiosClient.get\<close>, \<^verbatim>\<open>post\<close>, \<^verbatim>\<open>patch\<close>, \<^verbatim>\<open>delete\<close> of
  \<^verbatim>\<open>todoApi\<close>) on the instance \<^verbatim>\<open>setupInterceptors\<close> prepared: the request
  interceptor, the transport, then the success or the error handler of the response
  interceptor. The transport is the parameter \<open>adapter\<close>: it answers a request with a
  response (\<open>Inr\<close>) or fails with an error (\<open>Inl\<close>, which carries the response when
  the server answered with a status outside 2xx). Nothing in the interceptors sends
  the request again.
\<close>

definition axios_request ::
  "('a request_config_scheme \<Rightarrow> 'x axios_error_scheme + 'r axios_response_scheme) \<Rightarrow>
   env \<Rightarrow> 'a request_config_scheme \<Rightarrow> env \<times> ('x axios_error_scheme + 'r axios_response_scheme)" where
  "axios_request adapter e config =
     (let config' = onRequest e config;
          e' = e\<lparr>requests_sent := requests_sent e + 1\<rparr>
      in case adapter config' of
           Inr resp \<Rightarrow> onFulfilled e' resp
         | Inl error \<Rightarrow> onRejected e' error)"

text \<open>\<^verbatim>\<open>API_CONFIG.RETRY_ATTEMPTS\<close>, of the module imported as \<^verbatim>\<open>@/config/api.config\<close>.\<close>

definition RETRY_ATTEMPTS :: nat where
  "RETRY_ATTEMPTS = 1"

text \<open>
  Modelled from the spec: the automatic retry around a Facade call. The repository
  sets it up in the query client (\<^verbatim>\<open>lib/api/queryClient.ts\<close>, \<^verbatim>\<open>retry: 1\<close>), whose
  source is not part of this development; the interceptors and \<^verbatim>\<open>todoApi\<close> hold
  no retry of their own. Section 4.3 of the specification: the facade performs at most
  one automatic retry and then surfaces the error; section 7: errors are not
  auto-retried beyond that one retry. So a call that is rejected is sent again while
  retries are left, each transmission a full pass through the interceptors, and the
  first response or the last error is the outcome. \<open>transport k\<close> is the server's
  answer to transmission number \<open>k\<close> of the call; waiting between transmissions is
  not modelled.
\<close>

fun fetch_with_retry ::
  "nat \<Rightarrow> nat \<Rightarrow> (nat \<Rightarrow> 'a request_config_scheme \<Rightarrow> 'x axios_error_scheme + 'r axios_response_scheme) \<Rightarrow>
   env \<Rightarrow> 'a request_config_scheme \<Rightarrow> env \<times> ('x axios_error_scheme + 'r axios_response_scheme)" where
  "fetch_with_retry 0 k transport e config = axios_request (transport k) e config"
| "fetch_with_retry (Suc retries) k transport e config =
     (case axios_request (transport k) e config of
        (e', Inr resp) \<Rightarrow> (e', Inr resp)
      | (e', Inl error) \<Rightarrow> fetch_with_retry retries (Suc k) transport e' config)"

definition facade_call ::
  "(nat \<Rightarrow> 'a request_config_scheme \<Rightarrow> 'x axios_error_scheme + 'r axios_response_scheme) \<Rightarrow>
   env \<Rightarrow> 'a request_config_scheme \<Rightarrow> env \<times> ('x axios_error_scheme + 'r axios_response_scheme)" where
  "facade_call transport e config = fetch_with_retry RETRY_ATTEMPTS 0 transport e config"


section \<open>The client-side cache (the query hooks in src/features/todos/store/todosSlice.ts)\<close>

record todo =
  userId :: int
  id' :: int
  title :: string
  completed :: bool

text \<open>
  A query key is an array of strings and numbers:
  \<^verbatim>\<open>TODOS_QUERY_KEY = ["todos"]\<close>,
  \<^verbatim>\<open>SINGLE_TODO_QUERY_KEY(id) = [...TODOS_QUERY_KEY, id]\<close>,
  \<^verbatim>\<open>USER_TODOS_QUERY_KEY(userId) = [...TODOS_QUERY_KEY, "user", userId]\<close>.
\<close>

datatype key_part = KString string | KNumber int

type_synonym query_key = "key_part list"

definition TODOS_QUERY_KEY :: query_key where
  "TODOS_QUERY_KEY = [KString ''todos'']"

definition SINGLE_TODO_QUERY_KEY :: "int \<Rightarrow> query_key" where
  "SINGLE_TODO_QUERY_KEY i = TODOS_QUERY_KEY @ [KNumber i]"

definition USER_TODOS_QUERY_KEY :: "int \<Rightarrow> query_key" where
  "USER_TODOS_QUERY_KEY u = TODOS_QUERY_KEY @ [KString ''user'', KNumber u]"

text \<open>
  The query cache of the \<^verbatim>\<open>QueryClient\<close>: at most one query per key, each with its
  data (\<^verbatim>\<open>undefined\<close> until a fetch or a write supplies it) and its invalidation
  flag. The cache is untyped at run time; the data this program stores is a to-do
  array (list queries) or one to-do (the single-item query).
\<close>

datatype query_data = TodoArray "todo list" | TodoObject todo

record query_state =
  data :: "query_data option"
  isInvalidated :: bool

type_synonym query_cache = "query_key \<rightharpoonup> query_state"

text \<open>
  The \<^verbatim>\<open>QueryClient\<close> operations the handlers call, after the library's
  contract. \<^verbatim>\<open>getQueryData(key)\<close> is the data of the query under \<open>key\<close>,
  \<^verbatim>\<open>undefined\<close> when there is no such query or it has no data yet.
  \<^verbatim>\<open>setQueryData(key, updater)\<close> reads that data, calls the updater on it, and, unless
  the updater returns \<^verbatim>\<open>undefined\<close>, stores the result under \<open>key\<close>, creating the
  query when it is missing and clearing its invalidation flag. The updater is code
  of the handler: it may throw, and it may itself call the client, so it takes and
  returns the cache. \<^verbatim>\<open>invalidateQueries({queryKey})\<close> flags every query whose key
  has \<open>queryKey\<close> as a prefix; the refetch of the flagged queries that are observed
  happens later, on the network, and is not part of the handler.
\<close>

definition getQueryData :: "query_cache \<Rightarrow> query_key \<Rightarrow> query_data option" where
  "getQueryData qc queryKey = (case qc queryKey of None \<Rightarrow> None | Some q \<Rightarrow> data q)"

definition setQueryData ::
  "query_key \<Rightarrow> (query_data option \<Rightarrow> query_cache \<Rightarrow> js_error + query_data option \<times> query_cache) \<Rightarrow>
   query_cache \<Rightarrow> js_error + query_cache" where
  "setQueryData queryKey updater qc =
     (let prevData = getQueryData qc queryKey
      in case updater prevData qc of
           Inl err \<Rightarrow> Inl err
         | Inr (None, qc1) \<Rightarrow> Inr qc1
         | Inr (Some d, qc1) \<Rightarrow>
             Inr (qc1(queryKey \<mapsto> \<lparr>data = Some d, isInvalidated = False\<rparr>)))"

definition invalidateQueries :: "query_key \<Rightarrow> query_cache \<Rightarrow> query_cache" where
  "invalidateQueries queryKey qc =
     (\<lambda>k. case qc k of
            None \<Rightarrow> None
          | Some q \<Rightarrow> if prefix queryKey k then Some (q\<lparr>isInvalidated := True\<rparr>) else Some q)"

text \<open>
  \<^verbatim>\<open>useCreateTodo\<close>, \<^verbatim>\<open>onSuccess: (newTodo) => ...\<close>:
  \<^verbatim>\<open>setQueryData(TODOS_QUERY_KEY, (oldData) => oldData ? [newTodo, ...oldData] : [newTodo])\<close>,
  then \<^verbatim>\<open>invalidateQueries({queryKey: USER_TODOS_QUERY_KEY(newTodo.userId)})\<close>.
  An array, the empty one too, is truthy; spreading an object that is not iterable
  throws a \<^verbatim>\<open>TypeError\<close>.
\<close>

definition createTodo_updater ::
  "todo \<Rightarrow> query_data option \<Rightarrow> query_cache \<Rightarrow> js_error + query_data option \<times> query_cache" where
  "createTodo_updater newTodo oldData qc =
     (case oldData of
        None \<Rightarrow> Inr (Some (TodoArray [newTodo]), qc)
      | Some (TodoArray xs) \<Rightarrow> Inr (Some (TodoArray (newTodo # xs)), qc)
      | Some (TodoObject t) \<Rightarrow> Inl TypeError)"

definition createTodo_onSuccess :: "todo \<Rightarrow> query_cache \<Rightarrow> js_error + query_cache" where
  "createTodo_onSuccess newTodo qc =
     (case setQueryData TODOS_QUERY_KEY (createTodo_updater newTodo) qc of
        Inl err \<Rightarrow> Inl err
      | Inr qc1 \<Rightarrow> Inr (invalidateQueries (USER_TODOS_QUERY_KEY (userId newTodo)) qc1))"

text \<open>
  \<^verbatim>\<open>useDeleteTodo\<close>, \<^verbatim>\<open>onSuccess: (_, id) => ...\<close>: one \<^verbatim>\<open>setQueryData\<close> on
  \<^verbatim>\<open>TODOS_QUERY_KEY\<close> whose updater returns \<^verbatim>\<open>[]\<close> at once when there is no old
  data, and otherwise looks the item up (\<^verbatim>\<open>find\<close>), filters it out, and invalidates
  the item's owner family from inside the updater when the lookup found it. Calling
  \<^verbatim>\<open>find\<close> on an object that is not an array throws a \<^verbatim>\<open>TypeError\<close>.
\<close>

definition deleteTodo_updater ::
  "int \<Rightarrow> query_data option \<Rightarrow> query_cache \<Rightarrow> js_error + query_data option \<times> query_cache" where
  "deleteTodo_updater i oldData qc =
     (case oldData of
        None \<Rightarrow> Inr (Some (TodoArray []), qc)
      | Some (TodoObject t) \<Rightarrow> Inl TypeError
      | Some (TodoArray xs) \<Rightarrow>
          (let todoToDelete = find (\<lambda>t. id' t = i) xs;
               filtered = filter (\<lambda>t. id' t \<noteq> i) xs;
               qc1 =
                 (case todoToDelete of
                    Some t \<Rightarrow> invalidateQueries (USER_TODOS_QUERY_KEY (userId t)) qc
                  | None \<Rightarrow> qc)
           in Inr (Some (TodoArray filtered), qc1)))"

definition deleteTodo_onSuccess :: "int \<Rightarrow> query_cache \<Rightarrow> js_error + query_cache" where
  "deleteTodo_onSuccess i qc = setQueryData TODOS_QUERY_KEY (deleteTodo_updater i) qc"


section \<open>The access gate: properties\<close>

lemma isPublicRoute_iff:
  "isPublicRoute pathname = (prefix ''/login'' pathname \<or> prefix ''/api/auth'' pathname)"
  by (simp add: isPublicRoute_def publicRoutes_def)

lemma getToken_failed: "getToken Absent = None" "getToken PresentInvalid = None"
  by (simp_all add: getToken_def)

lemma lookahead_literal: "lookahead_matches (literal p) s = prefix p s"
proof (induction p arbitrary: s)
  case Nil
  show ?case by (simp add: literal_def)
next
  case (Cons a p)
  from Cons.IH show ?case
    by (cases s) (auto simp: literal_def)
qed

text \<open>
  Where the callback and the specification agree: a path that starts with neither
  public route, requested with no credential or with one that does not verify, is
  denied, and the page a denied request is sent to is \<^verbatim>\<open>/login\<close>.
\<close>

lemma protected_path_denied:
  assumes "\<not> prefix ''/login'' pathname"
    and "\<not> prefix ''/api/auth'' pathname"
    and "c = Absent \<or> c = PresentInvalid"
  shows "authorized (getToken c) pathname = False \<and> pages_signIn = ''/login''"
proof -
  from assms(1,2) have "\<not> isPublicRoute pathname"
    by (simp add: isPublicRoute_iff)
  moreover from assms(3) have "getToken c = None"
    by (auto simp: getToken_failed)
  ultimately show ?thesis
    by (simp add: authorized_def pages_signIn_def)
qed

lemma protected_path_denied_at_root:
  "\<not> prefix ''/login'' ''/'' \<and> \<not> prefix ''/api/auth'' ''/'' \<and>
   authorized (getToken (Absent :: unit credential)) ''/'' = False \<and>
   authorized (getToken (PresentInvalid :: unit credential)) ''/todos/3'' = False \<and>
   pages_signIn = ''/login''"
proof -
  have root: "\<not> prefix ''/login'' ''/''" "\<not> prefix ''/api/auth'' ''/''"
    by simp_all
  have item: "\<not> prefix ''/login'' ''/todos/3''" "\<not> prefix ''/api/auth'' ''/todos/3''"
    by simp_all
  from protected_path_denied [OF root, of "Absent :: unit credential"]
    protected_path_denied [OF item, of "PresentInvalid :: unit credential"] root
  show ?thesis by simp
qed

lemma spec_public_path_iff:
  "spec_public_path pathname =
     (pathname = ''/login'' \<or> prefix ''/login/'' pathname \<or>
      pathname = ''/api/auth'' \<or> prefix ''/api/auth/'' pathname)"
  by (auto simp: spec_public_path_def publicRoutes_def)

lemma spec_public_path_admitted: "spec_public_path pathname \<Longrightarrow> isPublicRoute pathname"
  by (auto simp: spec_public_path_iff isPublicRoute_iff prefix_def)

text \<open>
  Claim C1. The claim denies every path off the allow-list (the login page and the
  authentication-protocol namespace) when the credential is absent or invalid.
  \<^verbatim>\<open>/api/authx\<close> is off that list: it is not \<^verbatim>\<open>/api/auth\<close> and does not lie under
  \<^verbatim>\<open>/api/auth/\<close>. The callback tests \<^verbatim>\<open>startsWith("/api/auth")\<close>, which holds
  for it: evaluated at this path with an invalid credential, and with none, the
  callback returns true.
\<close>

theorem off_allow_list_path_admitted:
  "\<not> spec_public_path ''/api/authx'' \<and>
   authorized (getToken (PresentInvalid :: unit credential)) ''/api/authx'' = True \<and>
   authorized (getToken (Absent :: unit credential)) ''/api/authx'' = True"
  by (simp add: spec_public_path_iff authorized_def getToken_def isPublicRoute_iff)

text \<open>
  Claim C2. A path that starts with \<^verbatim>\<open>/login\<close> or with \<^verbatim>\<open>/api/auth\<close> is admitted
  whatever the credential state: valid, absent or invalid.
\<close>

theorem public_path_admitted:
  assumes "prefix ''/login'' pathname \<or> prefix ''/api/auth'' pathname"
  shows "authorized (getToken c) pathname = True"
  using assms by (simp add: authorized_def isPublicRoute_iff)

theorem public_path_admitted_witness:
  "prefix ''/api/auth'' ''/api/auth/callback/google'' \<and>
   authorized (getToken (Absent :: unit credential)) ''/api/auth/callback/google'' = True \<and>
   authorized (getToken (PresentInvalid :: unit credential)) ''/login'' = True \<and>
   authorized (getToken (PresentValid ())) ''/login'' = True"
proof -
  have p1: "prefix ''/login'' ''/api/auth/callback/google'' \<or>
            prefix ''/api/auth'' ''/api/auth/callback/google''"
    by simp
  have p2: "prefix ''/login'' ''/login'' \<or> prefix ''/api/auth'' ''/login''"
    by simp
  from public_path_admitted [OF p1, of "Absent :: unit credential"]
    public_path_admitted [OF p2, of "PresentInvalid :: unit credential"]
    public_path_admitted [OF p2, of "PresentValid ()"]
  show ?thesis by simp
qed

text \<open>
  Claim C3. The claim asks for exact-segment matching: \<^verbatim>\<open>/login-admin\<close> is neither
  the login page nor under \<^verbatim>\<open>/login/\<close>, so it is to be classified protected and
  denied without a credential. The callback classifies with \<^verbatim>\<open>startsWith\<close>, and
  \<^verbatim>\<open>/login-admin\<close> starts with \<^verbatim>\<open>/login\<close>: evaluated at this path with no
  credential, the callback classifies it public and returns true.
\<close>

theorem login_admin_admitted:
  "isPublicRoute ''/login-admin'' \<and>
   authorized (getToken (Absent :: unit credential)) ''/login-admin'' = True"
  by (simp add: isPublicRoute_iff authorized_def getToken_def)

text \<open>
  What the callback computes instead is raw string-prefix containment: with no
  credential (or an invalid one) it admits a path exactly when the path starts with
  \<^verbatim>\<open>/login\<close> or with \<^verbatim>\<open>/api/auth\<close>, segment boundary or not.
\<close>

lemma classification_by_raw_prefix:
  "authorized (getToken Absent) pathname =
     (prefix ''/login'' pathname \<or> prefix ''/api/auth'' pathname) \<and>
   authorized (getToken PresentInvalid) pathname =
     (prefix ''/login'' pathname \<or> prefix ''/api/auth'' pathname)"
  by (simp add: authorized_def getToken_def isPublicRoute_iff)

text \<open>
  The matcher draws the same line: its lookahead excludes every path whose text after
  the leading slash begins with \<^verbatim>\<open>login\<close>, so the middleware does not run on
  \<^verbatim>\<open>/login-admin\<close> at all.
\<close>

lemma matcher_excluded_login_prefix:
  "prefix ''/login'' pathname \<Longrightarrow> matcher_excluded pathname"
  by (cases pathname)
    (auto simp: matcher_excluded_def matcher_exclusions_def lookahead_literal)

lemma matcher_excluded_login_admin: "matcher_excluded ''/login-admin''"
  by (rule matcher_excluded_login_prefix) simp



lemma authorized_rt_raises: "authorized_rt JsNull JsUndefined = Inl TypeError"
  by (simp add: authorized_rt_def truthy_def publicRoutes_def startsWith_rt_def)





section \<open>The data access facade: properties\<close>

text \<open>
  Claim C4, as stated: every response with status 401 clears the stored credential
  and routes the client to \<^verbatim>\<open>/login\<close>. Where there is no \<^verbatim>\<open>window\<close> the guard
  skips both: the environment is unchanged, nothing is navigated, and only the
  rejection remains.
\<close>

theorem unauthorized_without_window_counterexample:
  "response_status \<lparr>message = ''Unauthorized'', response = Some \<lparr>status = 401\<rparr>\<rparr> = Some 401 \<and>
   onRejected \<lparr>window = None, console = [], requests_sent = 1\<rparr>
       \<lparr>message = ''Unauthorized'', response = Some \<lparr>status = 401\<rparr>\<rparr> =
     (\<lparr>window = None, console = [], requests_sent = 1\<rparr>,
      (Inl \<lparr>message = ''Unauthorized'', response = Some \<lparr>status = 401\<rparr>\<rparr>
         :: axios_error + axios_response))"
  by (simp add: onRejected_def response_status_def)

text \<open>
  Claim C4, amended. On a response with status 401 the error handler rejects with the
  same error in every environment; in a browser (\<^verbatim>\<open>window\<close> defined) it also
  removes \<^verbatim>\<open>authToken\<close> from local storage and assigns \<^verbatim>\<open>/login\<close> to
  \<^verbatim>\<open>window.location.href\<close>, touching no other key and no other part of the
  environment; where there is no \<^verbatim>\<open>window\<close> it changes nothing.
\<close>

theorem unauthorized_clears_credential_in_browser:
  fixes error :: "'x axios_error_scheme"
    and outcome :: "env \<times> ('x axios_error_scheme + 'r axios_response_scheme)"
  assumes "response_status error = Some 401"
    and "outcome = onRejected e error"
  shows "snd outcome = Inl error \<and>
         fst outcome =
           (case window e of
              None \<Rightarrow> e
            | Some w \<Rightarrow>
                e\<lparr>window := Some (w\<lparr>localStorage := (localStorage w)(''authToken'' := None),
                                        location_href := ''/login''\<rparr>)\<rparr>)"
  using assms by (simp add: onRejected_def)

theorem unauthorized_clears_credential_in_browser_witness:
  "response_status \<lparr>message = ''Unauthorized'', response = Some \<lparr>status = 401\<rparr>\<rparr> = Some 401 \<and>
   onRejected
     \<lparr>window = Some \<lparr>localStorage = [''authToken'' \<mapsto> ''abc'', ''theme'' \<mapsto> ''dark''],
                      location_href = ''/''\<rparr>,
      console = [], requests_sent = 1\<rparr>
     \<lparr>message = ''Unauthorized'', response = Some \<lparr>status = 401\<rparr>\<rparr> =
     (\<lparr>window = Some \<lparr>localStorage = [''theme'' \<mapsto> ''dark''], location_href = ''/login''\<rparr>,
       console = [], requests_sent = 1\<rparr>,
      (Inl \<lparr>message = ''Unauthorized'', response = Some \<lparr>status = 401\<rparr>\<rparr>
         :: axios_error + axios_response))"
proof -
  let ?error = "\<lparr>message = ''Unauthorized'', response = Some \<lparr>status = 401\<rparr>\<rparr>"
  let ?e = "\<lparr>window = Some \<lparr>localStorage = [''authToken'' \<mapsto> ''abc'', ''theme'' \<mapsto> ''dark''],
                              location_href = ''/''\<rparr>,
              console = [], requests_sent = 1\<rparr>"
  have h: "response_status ?error = Some 401"
    by (simp add: response_status_def)
  from unauthorized_clears_credential_in_browser [OF h refl, of ?e, where 'r = unit] h
  show ?thesis by (simp add: prod_eq_iff)
qed

text \<open>
  Claim C5. On a response with status 403 the error handler rejects with the same
  error (the one whose status is 403) and only writes the line
  \<^verbatim>\<open>Access forbidden\<close> to the console: the browser, and with it local storage,
  the stored credential and the location, is as it was.
\<close>

theorem forbidden_keeps_credential:
  fixes error :: "'x axios_error_scheme"
    and outcome :: "env \<times> ('x axios_error_scheme + 'r axios_response_scheme)"
  assumes "response_status error = Some 403"
    and "outcome = onRejected e error"
  shows "outcome = (e\<lparr>console := console e @ [''Access forbidden'']\<rparr>, Inl error) \<and>
         window (fst outcome) = window e \<and>
         getAuthToken (fst outcome) = getAuthToken e"
  using assms by (simp add: onRejected_def getAuthToken_def)

theorem forbidden_keeps_credential_witness:
  "response_status \<lparr>message = ''Forbidden'', response = Some \<lparr>status = 403\<rparr>\<rparr> = Some 403 \<and>
   onRejected
     \<lparr>window = Some \<lparr>localStorage = [''authToken'' \<mapsto> ''abc''], location_href = ''/''\<rparr>,
      console = [], requests_sent = 1\<rparr>
     \<lparr>message = ''Forbidden'', response = Some \<lparr>status = 403\<rparr>\<rparr> =
     (\<lparr>window = Some \<lparr>localStorage = [''authToken'' \<mapsto> ''abc''], location_href = ''/''\<rparr>,
       console = [''Access forbidden''], requests_sent = 1\<rparr>,
      (Inl \<lparr>message = ''Forbidden'', response = Some \<lparr>status = 403\<rparr>\<rparr>
         :: axios_error + axios_response))"
proof -
  let ?error = "\<lparr>message = ''Forbidden'', response = Some \<lparr>status = 403\<rparr>\<rparr>"
  have h: "response_status ?error = Some 403"
    by (simp add: response_status_def)
  let ?e = "\<lparr>window = Some \<lparr>localStorage = [''authToken'' \<mapsto> ''abc''], location_href = ''/''\<rparr>,
              console = [], requests_sent = 1\<rparr>"
  from forbidden_keeps_credential
      [OF h refl, of ?e, where 'r = unit] h
  show ?thesis by simp
qed

text \<open>
  Claim C6. When local storage holds a credential (a non-empty \<^verbatim>\<open>authToken\<close>) the
  request interceptor sets the \<^verbatim>\<open>Authorization\<close> header to \<^verbatim>\<open>Bearer\<close>, a space
  and the credential, and sets \<^verbatim>\<open>Content-Type\<close>. When it holds none (no
  \<^verbatim>\<open>window\<close>, no \<^verbatim>\<open>authToken\<close> key, or the empty string, which the truthiness
  test takes for none) the only change to the request is the \<^verbatim>\<open>Content-Type\<close>
  header. Every other header and field of the request is as it was in both cases.
\<close>

theorem bearer_attached_when_credential_present:
  "(getAuthToken e = Some t \<and> t \<noteq> [] \<longrightarrow>
      onRequest e config =
        config\<lparr>headers := (headers config)(''Authorization'' \<mapsto> ''Bearer '' @ t,
                                               ''Content-Type'' \<mapsto> ''application/json'')\<rparr>) \<and>
   (getAuthToken e = None \<or> getAuthToken e = Some [] \<longrightarrow>
      onRequest e config =
        config\<lparr>headers := (headers config)(''Content-Type'' \<mapsto> ''application/json'')\<rparr>)"
  by (auto simp: onRequest_def)

theorem bearer_attached_when_credential_present_witness:
  "getAuthToken \<lparr>window = Some \<lparr>localStorage = [''authToken'' \<mapsto> ''abc''], location_href = ''/''\<rparr>,
                  console = [], requests_sent = 0\<rparr> = Some ''abc'' \<and>
   onRequest \<lparr>window = Some \<lparr>localStorage = [''authToken'' \<mapsto> ''abc''], location_href = ''/''\<rparr>,
               console = [], requests_sent = 0\<rparr>
       \<lparr>url = ''/todos'', method' = ''get'', headers = [''Accept'' \<mapsto> ''application/json'']\<rparr> =
     \<lparr>url = ''/todos'', method' = ''get'',
      headers = [''Accept'' \<mapsto> ''application/json'', ''Authorization'' \<mapsto> ''Bearer abc'',
                 ''Content-Type'' \<mapsto> ''application/json'']\<rparr> \<and>
   getAuthToken \<lparr>window = Some \<lparr>localStorage = Map.empty, location_href = ''/''\<rparr>,
                  console = [], requests_sent = 0\<rparr> = None \<and>
   onRequest \<lparr>window = Some \<lparr>localStorage = Map.empty, location_href = ''/''\<rparr>,
               console = [], requests_sent = 0\<rparr>
       \<lparr>url = ''/todos'', method' = ''get'', headers = [''Accept'' \<mapsto> ''application/json'']\<rparr> =
     \<lparr>url = ''/todos'', method' = ''get'',
      headers = [''Accept'' \<mapsto> ''application/json'', ''Content-Type'' \<mapsto> ''application/json'']\<rparr>"
proof -
  let ?with = "\<lparr>window = Some \<lparr>localStorage = [''authToken'' \<mapsto> ''abc''], location_href = ''/''\<rparr>,
                 console = [], requests_sent = 0\<rparr>"
  let ?without = "\<lparr>window = Some \<lparr>localStorage = Map.empty, location_href = ''/''\<rparr>,
                    console = [], requests_sent = 0\<rparr>"
  let ?config = "\<lparr>url = ''/todos'', method' = ''get'', headers = [''Accept'' \<mapsto> ''application/json'']\<rparr>"
  have present: "getAuthToken ?with = Some ''abc''"
    by (simp add: getAuthToken_def)
  have absent: "getAuthToken ?without = None"
    by (simp add: getAuthToken_def)
  from bearer_attached_when_credential_present [of ?with "''abc''" ?config]
    bearer_attached_when_credential_present [of ?without "''abc''" ?config]
    present absent
  show ?thesis by simp
qed

text \<open>
  Every request on the instance is one transmission, whatever the transport answers;
  a rejected call is sent again only by the retry around it, which never sends more
  than \<open>retries\<close> further times.
\<close>

lemma axios_request_requests_sent:
  "requests_sent (fst (axios_request adapter e config)) = requests_sent e + 1"
  by (simp add: axios_request_def onFulfilled_def onRejected_def Let_def
      split: sum.split option.split)

lemma fetch_with_retry_bounds:
  "requests_sent e + 1 \<le> requests_sent (fst (fetch_with_retry retries k transport e config)) \<and>
   requests_sent (fst (fetch_with_retry retries k transport e config)) \<le> requests_sent e + 1 + retries"
proof (induction retries arbitrary: k e)
  case 0
  show ?case by (simp add: axios_request_requests_sent)
next
  case (Suc retries)
  obtain e' r where ar: "axios_request (transport k) e config = (e', r)"
    by (cases "axios_request (transport k) e config")
  then have sent: "requests_sent e' = requests_sent e + 1"
    using axios_request_requests_sent [of "transport k" e config] by simp
  show ?case
  proof (cases r)
    case (Inr resp)
    with ar sent show ?thesis by simp
  next
    case (Inl error)
    with ar sent Suc.IH [where k = "Suc k" and e = e'] show ?thesis by simp
  qed
qed

lemma facade_call_at_most_one_retry:
  "requests_sent (fst (facade_call transport e config)) \<le> requests_sent e + 2"
  using fetch_with_retry_bounds [of e RETRY_ATTEMPTS 0 transport config]
  by (simp add: facade_call_def RETRY_ATTEMPTS_def)

lemma axios_request_429:
  assumes "adapter (onRequest e config) = Inl error"
    and "response_status error = Some 429"
  shows "axios_request adapter e config =
           (e\<lparr>console := console e @ [''Rate limit exceeded''],
              requests_sent := requests_sent e + 1\<rparr>, Inl error)"
  using assms by (simp add: axios_request_def onRejected_def)

lemma onRequest_ignores_console:
  "onRequest (e\<lparr>console := c, requests_sent := n\<rparr>) config = onRequest e config"
  by (simp add: onRequest_def getAuthToken_def)

text \<open>
  Claim C7. A Facade call whose first transmission is answered with status 429 is
  sent again exactly once: two transmissions in all, one automatic retry, never more.
  When the retry is answered with status 429 too, the call rejects with that error
  (the one whose status is 429); the handler has written
  \<^verbatim>\<open>Rate limit exceeded\<close> to the console once per answer and left the browser,
  the stored credential included, as it was.
\<close>

theorem rate_limited_retried_once_then_surfaced:
  fixes first_error retry_error :: "'x axios_error_scheme"
    and transport ::
      "nat \<Rightarrow> 'a request_config_scheme \<Rightarrow> 'x axios_error_scheme + 'r axios_response_scheme"
  assumes "transport 0 (onRequest e config) = Inl first_error"
    and "response_status first_error = Some 429"
  shows "requests_sent (fst (facade_call transport e config)) = requests_sent e + 2 \<and>
         (transport 1 (onRequest e config) = Inl retry_error \<and> response_status retry_error = Some 429 \<longrightarrow>
            facade_call transport e config =
              (e\<lparr>console := console e @ [''Rate limit exceeded'', ''Rate limit exceeded''],
                 requests_sent := requests_sent e + 2\<rparr>, Inl retry_error))"
proof -
  let ?e1 = "e\<lparr>console := console e @ [''Rate limit exceeded''],
               requests_sent := requests_sent e + 1\<rparr>"
  have first: "axios_request (transport 0) e config = (?e1, Inl first_error)"
    using assms by (rule axios_request_429)
  then have retry: "facade_call transport e config = axios_request (transport 1) ?e1 config"
    by (simp add: facade_call_def RETRY_ATTEMPTS_def)
  have sent: "requests_sent (fst (facade_call transport e config)) = requests_sent e + 2"
    using axios_request_requests_sent [of "transport 1" ?e1 config] by (simp add: retry)
  have surfaced: "facade_call transport e config =
      (e\<lparr>console := console e @ [''Rate limit exceeded'', ''Rate limit exceeded''],
         requests_sent := requests_sent e + 2\<rparr>, Inl retry_error)"
    if again: "transport 1 (onRequest e config) = Inl retry_error"
      and status: "response_status retry_error = Some 429"
  proof -
    from again have "transport 1 (onRequest ?e1 config) = Inl retry_error"
      by (simp add: onRequest_ignores_console)
    then have "axios_request (transport 1) ?e1 config =
        (?e1\<lparr>console := console ?e1 @ [''Rate limit exceeded''],
             requests_sent := requests_sent ?e1 + 1\<rparr>, Inl retry_error)"
      using status by (rule axios_request_429)
    then show ?thesis by (simp add: retry)
  qed
  from sent surfaced show ?thesis by blast
qed

theorem rate_limited_retried_once_then_surfaced_witness:
  "facade_call
     (\<lambda>k config. Inl \<lparr>message = ''Too Many Requests'', response = Some \<lparr>status = 429\<rparr>\<rparr>)
     \<lparr>window = Some \<lparr>localStorage = [''authToken'' \<mapsto> ''abc''], location_href = ''/''\<rparr>,
      console = [], requests_sent = 0\<rparr>
     \<lparr>url = ''/todos'', method' = ''get'', headers = Map.empty\<rparr> =
     (\<lparr>window = Some \<lparr>localStorage = [''authToken'' \<mapsto> ''abc''], location_href = ''/''\<rparr>,
       console = [''Rate limit exceeded'', ''Rate limit exceeded''], requests_sent = 2\<rparr>,
      (Inl \<lparr>message = ''Too Many Requests'', response = Some \<lparr>status = 429\<rparr>\<rparr>
         :: axios_error + axios_response))"
proof -
  let ?error = "\<lparr>message = ''Too Many Requests'', response = Some \<lparr>status = 429\<rparr>\<rparr>"
  let ?transport =
    "\<lambda>(k :: nat) (config :: request_config). (Inl ?error :: axios_error + axios_response)"
  let ?e = "\<lparr>window = Some \<lparr>localStorage = [''authToken'' \<mapsto> ''abc''], location_href = ''/''\<rparr>,
              console = [], requests_sent = 0\<rparr>"
  let ?config = "\<lparr>url = ''/todos'', method' = ''get'', headers = Map.empty\<rparr>"
  have answered: "?transport 0 (onRequest ?e ?config) = Inl ?error"
    by simp
  have h: "response_status ?error = Some 429"
    by (simp add: response_status_def)
  from rate_limited_retried_once_then_surfaced
      [where transport = ?transport and e = ?e and config = ?config and retry_error = ?error,
        OF answered h] h
  show ?thesis by simp
qed

section \<open>The client-side cache: properties\<close>

lemma owner_key_not_prefix_of_todos:
  "\<not> prefix (USER_TODOS_QUERY_KEY u) TODOS_QUERY_KEY"
  by (simp add: USER_TODOS_QUERY_KEY_def TODOS_QUERY_KEY_def)

lemma invalidateQueries_apply:
  "invalidateQueries queryKey qc k =
     (if prefix queryKey k then map_option (\<lambda>q. q\<lparr>isInvalidated := True\<rparr>) (qc k) else qc k)"
  by (simp add: invalidateQueries_def split: option.split)

lemma getQueryData_invalidateQueries:
  "getQueryData (invalidateQueries queryKey qc) k = getQueryData qc k"
  by (simp add: getQueryData_def invalidateQueries_def split: option.split)

lemma getQueryData_other_key:
  "k \<noteq> queryKey \<Longrightarrow> getQueryData (qc(queryKey \<mapsto> q)) k = getQueryData qc k"
  by (simp add: getQueryData_def)

lemma createTodo_onSuccess_array:
  assumes "getQueryData qc TODOS_QUERY_KEY = Some (TodoArray xs)"
  shows "createTodo_onSuccess newTodo qc =
     Inr (invalidateQueries (USER_TODOS_QUERY_KEY (userId newTodo))
            (qc(TODOS_QUERY_KEY \<mapsto>
                  \<lparr>data = Some (TodoArray (newTodo # xs)), isInvalidated = False\<rparr>)))"
  using assms by (simp add: createTodo_onSuccess_def setQueryData_def createTodo_updater_def)

lemma createTodo_onSuccess_undefined:
  assumes "getQueryData qc TODOS_QUERY_KEY = None"
  shows "createTodo_onSuccess newTodo qc =
     Inr (invalidateQueries (USER_TODOS_QUERY_KEY (userId newTodo))
            (qc(TODOS_QUERY_KEY \<mapsto>
                  \<lparr>data = Some (TodoArray [newTodo]), isInvalidated = False\<rparr>)))"
  using assms by (simp add: createTodo_onSuccess_def setQueryData_def createTodo_updater_def)

lemma find_None_filter:
  "find P xs = None \<Longrightarrow> filter (\<lambda>x. \<not> P x) xs = xs"
  by (induction xs) (auto split: if_splits)

text \<open>
  Claim C8. When the \<^verbatim>\<open>["todos"]\<close> entry holds a list, or there is no such entry
  yet, the create handler succeeds, and afterwards: the entry holds the new item in
  front of the old list (the new item alone when there was no entry); every other
  key is as it was, but that the queries under the owner family
  \<^verbatim>\<open>["todos", "user", newTodo.userId]\<close> are flagged invalidated; and no key other
  than \<^verbatim>\<open>["todos"]\<close> has its data written.
\<close>

theorem create_prepends_and_invalidates_owner:
  assumes "getQueryData qc TODOS_QUERY_KEY = None \<or>
           getQueryData qc TODOS_QUERY_KEY = Some (TodoArray xs)"
  shows "\<exists>qc'. createTodo_onSuccess newTodo qc = Inr qc' \<and>
     qc' TODOS_QUERY_KEY =
       Some \<lparr>data = Some (TodoArray
                 (case getQueryData qc TODOS_QUERY_KEY of
                    Some (TodoArray old) \<Rightarrow> newTodo # old
                  | _ \<Rightarrow> [newTodo])),
             isInvalidated = False\<rparr> \<and>
     (\<forall>k. k \<noteq> TODOS_QUERY_KEY \<longrightarrow>
        qc' k = (if prefix (USER_TODOS_QUERY_KEY (userId newTodo)) k
                 then map_option (\<lambda>q. q\<lparr>isInvalidated := True\<rparr>) (qc k)
                 else qc k)) \<and>
     (\<forall>k. k \<noteq> TODOS_QUERY_KEY \<longrightarrow> getQueryData qc' k = getQueryData qc k)"
  using assms
proof
  assume none: "getQueryData qc TODOS_QUERY_KEY = None"
  show ?thesis
    by (simp add: createTodo_onSuccess_undefined [OF none] none invalidateQueries_apply
        owner_key_not_prefix_of_todos getQueryData_invalidateQueries getQueryData_other_key)
next
  assume some: "getQueryData qc TODOS_QUERY_KEY = Some (TodoArray xs)"
  show ?thesis
    by (simp add: createTodo_onSuccess_array [OF some] some invalidateQueries_apply
        owner_key_not_prefix_of_todos getQueryData_invalidateQueries getQueryData_other_key)
qed

theorem create_prepends_and_invalidates_owner_witness:
  "\<exists>qc'. createTodo_onSuccess \<lparr>userId = 1, id' = 201, title = ''new'', completed = False\<rparr>
            [TODOS_QUERY_KEY \<mapsto>
               \<lparr>data = Some (TodoArray [\<lparr>userId = 2, id' = 7, title = ''old'', completed = True\<rparr>]),
                isInvalidated = False\<rparr>,
             USER_TODOS_QUERY_KEY 1 \<mapsto> \<lparr>data = Some (TodoArray []), isInvalidated = False\<rparr>,
             USER_TODOS_QUERY_KEY 2 \<mapsto>
               \<lparr>data = Some (TodoArray [\<lparr>userId = 2, id' = 7, title = ''old'', completed = True\<rparr>]),
                isInvalidated = False\<rparr>] = Inr qc' \<and>
     qc' TODOS_QUERY_KEY =
       Some \<lparr>data = Some (TodoArray [\<lparr>userId = 1, id' = 201, title = ''new'', completed = False\<rparr>,
                                      \<lparr>userId = 2, id' = 7, title = ''old'', completed = True\<rparr>]),
             isInvalidated = False\<rparr> \<and>
     qc' (USER_TODOS_QUERY_KEY 1) = Some \<lparr>data = Some (TodoArray []), isInvalidated = True\<rparr> \<and>
     qc' (USER_TODOS_QUERY_KEY 2) =
       Some \<lparr>data = Some (TodoArray [\<lparr>userId = 2, id' = 7, title = ''old'', completed = True\<rparr>]),
             isInvalidated = False\<rparr> \<and>
     qc' (SINGLE_TODO_QUERY_KEY 7) = None"
proof -
  let ?old = "\<lparr>userId = 2, id' = 7, title = ''old'', completed = True\<rparr>"
  let ?new = "\<lparr>userId = 1, id' = 201, title = ''new'', completed = False\<rparr>"
  let ?qc = "[TODOS_QUERY_KEY \<mapsto> \<lparr>data = Some (TodoArray [?old]), isInvalidated = False\<rparr>,
              USER_TODOS_QUERY_KEY 1 \<mapsto> \<lparr>data = Some (TodoArray []), isInvalidated = False\<rparr>,
              USER_TODOS_QUERY_KEY 2 \<mapsto> \<lparr>data = Some (TodoArray [?old]), isInvalidated = False\<rparr>]"
  have keys: "USER_TODOS_QUERY_KEY 1 \<noteq> TODOS_QUERY_KEY" "USER_TODOS_QUERY_KEY 2 \<noteq> TODOS_QUERY_KEY"
    "SINGLE_TODO_QUERY_KEY 7 \<noteq> TODOS_QUERY_KEY" "USER_TODOS_QUERY_KEY 1 \<noteq> USER_TODOS_QUERY_KEY 2"
    "SINGLE_TODO_QUERY_KEY 7 \<noteq> USER_TODOS_QUERY_KEY 1" "SINGLE_TODO_QUERY_KEY 7 \<noteq> USER_TODOS_QUERY_KEY 2"
    "\<not> prefix (USER_TODOS_QUERY_KEY 1) (USER_TODOS_QUERY_KEY 2)"
    by (simp_all add: USER_TODOS_QUERY_KEY_def SINGLE_TODO_QUERY_KEY_def TODOS_QUERY_KEY_def)
  have present: "getQueryData ?qc TODOS_QUERY_KEY = Some (TodoArray [?old])"
    using keys by (simp add: getQueryData_def)
  from create_prepends_and_invalidates_owner [where qc = ?qc and xs = "[?old]" and newTodo = ?new,
      OF disjI2, OF present]
  obtain qc' where r: "createTodo_onSuccess ?new ?qc = Inr qc'"
    and t: "qc' TODOS_QUERY_KEY =
       Some \<lparr>data = Some (TodoArray
                 (case getQueryData ?qc TODOS_QUERY_KEY of
                    Some (TodoArray old) \<Rightarrow> ?new # old
                  | _ \<Rightarrow> [?new])),
             isInvalidated = False\<rparr>"
    and o: "\<forall>k. k \<noteq> TODOS_QUERY_KEY \<longrightarrow>
        qc' k = (if prefix (USER_TODOS_QUERY_KEY (userId ?new)) k
                 then map_option (\<lambda>q. q\<lparr>isInvalidated := True\<rparr>) (?qc k)
                 else ?qc k)"
    by blast
  from o keys have "qc' (USER_TODOS_QUERY_KEY 1) = Some \<lparr>data = Some (TodoArray []), isInvalidated = True\<rparr>"
    by simp
  moreover from o keys have "qc' (USER_TODOS_QUERY_KEY 2) =
       Some \<lparr>data = Some (TodoArray [?old]), isInvalidated = False\<rparr>"
    by simp
  moreover from o keys have "qc' (SINGLE_TODO_QUERY_KEY 7) = None"
    by (simp add: USER_TODOS_QUERY_KEY_def SINGLE_TODO_QUERY_KEY_def TODOS_QUERY_KEY_def)
  moreover from t present have "qc' TODOS_QUERY_KEY =
       Some \<lparr>data = Some (TodoArray [?new, ?old]), isInvalidated = False\<rparr>"
    by simp
  ultimately show ?thesis using r by blast
qed

lemma deleteTodo_onSuccess_undefined:
  assumes "getQueryData qc TODOS_QUERY_KEY = None"
  shows "deleteTodo_onSuccess i qc =
     Inr (qc(TODOS_QUERY_KEY \<mapsto> \<lparr>data = Some (TodoArray []), isInvalidated = False\<rparr>))"
  using assms by (simp add: deleteTodo_onSuccess_def setQueryData_def deleteTodo_updater_def)

lemma deleteTodo_onSuccess_not_found:
  assumes "getQueryData qc TODOS_QUERY_KEY = Some (TodoArray xs)"
    and "find (\<lambda>t. id' t = i) xs = None"
  shows "deleteTodo_onSuccess i qc =
     Inr (qc(TODOS_QUERY_KEY \<mapsto> \<lparr>data = Some (TodoArray xs), isInvalidated = False\<rparr>))"
  using assms find_None_filter [of "\<lambda>t. id' t = i" xs]
  by (simp add: deleteTodo_onSuccess_def setQueryData_def deleteTodo_updater_def)

lemma deleteTodo_onSuccess_found:
  assumes "getQueryData qc TODOS_QUERY_KEY = Some (TodoArray xs)"
    and "find (\<lambda>t. id' t = i) xs = Some t"
  shows "deleteTodo_onSuccess i qc =
     Inr ((invalidateQueries (USER_TODOS_QUERY_KEY (userId t)) qc)
            (TODOS_QUERY_KEY \<mapsto>
               \<lparr>data = Some (TodoArray (filter (\<lambda>t. id' t \<noteq> i) xs)), isInvalidated = False\<rparr>))"
  using assms by (simp add: deleteTodo_onSuccess_def setQueryData_def deleteTodo_updater_def)

text \<open>
  Claim C10. With no \<^verbatim>\<open>["todos"]\<close> list in the cache the delete handler installs the
  empty list under \<^verbatim>\<open>["todos"]\<close> and changes nothing else: no query is
  invalidated. With a list that does not hold the item the list is stored back as it
  is and, again, nothing is invalidated. Only when the list holds the item (the
  first one with that id) is the owner family of that item,
  \<^verbatim>\<open>["todos", "user", userId]\<close>, invalidated, and the item filtered out.
\<close>

theorem delete_invalidates_owner_only_when_found:
  "(getQueryData qc TODOS_QUERY_KEY = None \<longrightarrow>
      deleteTodo_onSuccess i qc =
        Inr (qc(TODOS_QUERY_KEY \<mapsto> \<lparr>data = Some (TodoArray []), isInvalidated = False\<rparr>))) \<and>
   (getQueryData qc TODOS_QUERY_KEY = Some (TodoArray xs) \<and> find (\<lambda>t. id' t = i) xs = None \<longrightarrow>
      deleteTodo_onSuccess i qc =
        Inr (qc(TODOS_QUERY_KEY \<mapsto> \<lparr>data = Some (TodoArray xs), isInvalidated = False\<rparr>))) \<and>
   (getQueryData qc TODOS_QUERY_KEY = Some (TodoArray xs) \<and> find (\<lambda>t. id' t = i) xs = Some t \<longrightarrow>
      deleteTodo_onSuccess i qc =
        Inr ((invalidateQueries (USER_TODOS_QUERY_KEY (userId t)) qc)
               (TODOS_QUERY_KEY \<mapsto>
                  \<lparr>data = Some (TodoArray (filter (\<lambda>t. id' t \<noteq> i) xs)),
                   isInvalidated = False\<rparr>)))"
  using deleteTodo_onSuccess_undefined [of qc i] deleteTodo_onSuccess_not_found [of qc xs i]
    deleteTodo_onSuccess_found [of qc xs i t]
  by blast

theorem delete_invalidates_owner_only_when_found_witness:
  "getQueryData
     [USER_TODOS_QUERY_KEY 2 \<mapsto> \<lparr>data = Some (TodoArray []), isInvalidated = False\<rparr>]
     TODOS_QUERY_KEY = None \<and>
   deleteTodo_onSuccess 7
     [USER_TODOS_QUERY_KEY 2 \<mapsto> \<lparr>data = Some (TodoArray []), isInvalidated = False\<rparr>] =
     Inr [USER_TODOS_QUERY_KEY 2 \<mapsto> \<lparr>data = Some (TodoArray []), isInvalidated = False\<rparr>,
          TODOS_QUERY_KEY \<mapsto> \<lparr>data = Some (TodoArray []), isInvalidated = False\<rparr>] \<and>
   find (\<lambda>t. id' t = 7) [\<lparr>userId = 2, id' = 7, title = ''old'', completed = True\<rparr>] =
     Some \<lparr>userId = 2, id' = 7, title = ''old'', completed = True\<rparr> \<and>
   deleteTodo_onSuccess 7
     [USER_TODOS_QUERY_KEY 2 \<mapsto> \<lparr>data = Some (TodoArray []), isInvalidated = False\<rparr>,
      TODOS_QUERY_KEY \<mapsto>
        \<lparr>data = Some (TodoArray [\<lparr>userId = 2, id' = 7, title = ''old'', completed = True\<rparr>]),
         isInvalidated = False\<rparr>] =
     Inr ((invalidateQueries (USER_TODOS_QUERY_KEY 2)
             [USER_TODOS_QUERY_KEY 2 \<mapsto> \<lparr>data = Some (TodoArray []), isInvalidated = False\<rparr>,
              TODOS_QUERY_KEY \<mapsto>
                \<lparr>data = Some (TodoArray [\<lparr>userId = 2, id' = 7, title = ''old'', completed = True\<rparr>]),
                 isInvalidated = False\<rparr>])
            (TODOS_QUERY_KEY \<mapsto> \<lparr>data = Some (TodoArray []), isInvalidated = False\<rparr>)) \<and>
   (case deleteTodo_onSuccess 7
       [USER_TODOS_QUERY_KEY 2 \<mapsto> \<lparr>data = Some (TodoArray []), isInvalidated = False\<rparr>,
        TODOS_QUERY_KEY \<mapsto>
          \<lparr>data = Some (TodoArray [\<lparr>userId = 2, id' = 7, title = ''old'', completed = True\<rparr>]),
           isInvalidated = False\<rparr>] of
      Inl err \<Rightarrow> False
    | Inr qc' \<Rightarrow>
        qc' (USER_TODOS_QUERY_KEY 2) = Some \<lparr>data = Some (TodoArray []), isInvalidated = True\<rparr> \<and>
        qc' TODOS_QUERY_KEY = Some \<lparr>data = Some (TodoArray []), isInvalidated = False\<rparr>) \<and>
   find (\<lambda>t. id' t = 8) [\<lparr>userId = 2, id' = 7, title = ''old'', completed = True\<rparr>] = None \<and>
   deleteTodo_onSuccess 8
     [USER_TODOS_QUERY_KEY 2 \<mapsto> \<lparr>data = Some (TodoArray []), isInvalidated = False\<rparr>,
      TODOS_QUERY_KEY \<mapsto>
        \<lparr>data = Some (TodoArray [\<lparr>userId = 2, id' = 7, title = ''old'', completed = True\<rparr>]),
         isInvalidated = False\<rparr>] =
     Inr ([USER_TODOS_QUERY_KEY 2 \<mapsto> \<lparr>data = Some (TodoArray []), isInvalidated = False\<rparr>,
           TODOS_QUERY_KEY \<mapsto>
             \<lparr>data = Some (TodoArray [\<lparr>userId = 2, id' = 7, title = ''old'', completed = True\<rparr>]),
              isInvalidated = False\<rparr>]
            (TODOS_QUERY_KEY \<mapsto>
               \<lparr>data = Some (TodoArray [\<lparr>userId = 2, id' = 7, title = ''old'', completed = True\<rparr>]),
                isInvalidated = False\<rparr>))"
proof -
  let ?old = "\<lparr>userId = 2, id' = 7, title = ''old'', completed = True\<rparr>"
  let ?without = "[USER_TODOS_QUERY_KEY 2 \<mapsto> \<lparr>data = Some (TodoArray []), isInvalidated = False\<rparr>]"
  let ?with = "[USER_TODOS_QUERY_KEY 2 \<mapsto> \<lparr>data = Some (TodoArray []), isInvalidated = False\<rparr>,
                TODOS_QUERY_KEY \<mapsto> \<lparr>data = Some (TodoArray [?old]), isInvalidated = False\<rparr>]"
  have key: "USER_TODOS_QUERY_KEY 2 \<noteq> TODOS_QUERY_KEY"
    by (simp add: USER_TODOS_QUERY_KEY_def TODOS_QUERY_KEY_def)
  have absent: "getQueryData ?without TODOS_QUERY_KEY = None"
    using key by (simp add: getQueryData_def)
  have present: "getQueryData ?with TODOS_QUERY_KEY = Some (TodoArray [?old])"
    by (simp add: getQueryData_def)
  have found: "find (\<lambda>t. id' t = 7) [?old] = Some ?old"
    by simp
  have not_found: "find (\<lambda>t. id' t = 8) [?old] = None"
    by simp
  from delete_invalidates_owner_only_when_found [where qc = ?without and i = 7 and xs = "[]" and t = ?old]
    delete_invalidates_owner_only_when_found [where qc = ?with and i = 7 and xs = "[?old]" and t = ?old]
    delete_invalidates_owner_only_when_found [where qc = ?with and i = 8 and xs = "[?old]" and t = ?old]
    absent present found not_found key
  show ?thesis by (simp add: invalidateQueries_apply)
qed

end
